theory Spec2Isabelle
  imports Complex_Main "HOL-Library.AList"
begin

section \<open>Python values, exceptions and effects\<close>

text \<open>
  The two scripts \<^verbatim>\<open>audioldm_operations.py\<close> and \<^verbatim>\<open>wav2vec2_operations.py\<close> are
  command-line adapters around third-party libraries (argparse, json, torch, soundfile,
  audioldm, transformers). The scripts are embedded as they are written; every library call
  is a field of an environment record that says what the call returns or with which message
  it raises. Numbers are idealised: a Python float is a rational, so rounding is not
  modelled.
\<close>

datatype json =
    JNull
  | JBool bool
  | JInt int
  | JFloat rat
  | JStr string
  | JArr "json list"
  | JObj "(string \<times> json) list"

type_synonym dict = "(string \<times> json) list"

text \<open>A numpy array as \<^verbatim>\<open>sf.read\<close> returns it: shape \<open>(frames,)\<close> or \<open>(frames, channels)\<close>.\<close>

datatype ndarray =
    Arr1 "rat list"
  | Arr2 nat "rat list list"

datatype qconfig = Load_in_8bit | Load_in_4bit

text \<open>
  \<open>Exception msg\<close> is an instance of \<^verbatim>\<open>Exception\<close> whose \<^verbatim>\<open>str\<close> is \<open>msg\<close>;
  \<open>SystemExit n\<close> is what \<^verbatim>\<open>sys.exit(n)\<close> raises. It is not an \<^verbatim>\<open>Exception\<close>.
\<close>

datatype exc = Exception string | SystemExit nat

text \<open>
  What a run does that the outside can see, in order. \<open>Print j\<close> is
  \<^verbatim>\<open>print(json.dumps(j))\<close>; \<open>Print_help\<close> is argparse writing its usage text on standard
  output.
\<close>

datatype event =
    Print json
  | Print_help
  | AudioLDM_init json string "qconfig option"
  | Model_half
  | From_pretrained string
  | Processor_call ndarray int

type_synonym 'a comp = "event list \<times> (exc + 'a)"

definition py_return :: "'a \<Rightarrow> 'a comp" where
  "py_return x = ([], Inr x)"

definition emit :: "event \<Rightarrow> unit comp" where
  "emit e = ([e], Inr ())"

definition sys_exit :: "nat \<Rightarrow> 'a comp" where
  "sys_exit n = ([], Inl (SystemExit n))"

definition lib :: "string + 'a \<Rightarrow> 'a comp" where
  "lib r = (case r of Inl msg \<Rightarrow> ([], Inl (Exception msg)) | Inr x \<Rightarrow> ([], Inr x))"

definition py_bind :: "'a comp \<Rightarrow> ('a \<Rightarrow> 'b comp) \<Rightarrow> 'b comp" where
  "py_bind m f =
     (case snd m of
        Inl e \<Rightarrow> (fst m, Inl e)
      | Inr x \<Rightarrow> (fst m @ fst (f x), snd (f x)))"

text \<open>\<^verbatim>\<open>try: m except Exception as e: h(str(e))\<close>\<close>

definition py_try :: "'a comp \<Rightarrow> (string \<Rightarrow> 'a comp) \<Rightarrow> 'a comp" where
  "py_try m h =
     (case snd m of
        Inl (Exception msg) \<Rightarrow> (fst m @ fst (h msg), snd (h msg))
      | Inl (SystemExit n) \<Rightarrow> m
      | Inr x \<Rightarrow> m)"

definition bind_err :: "string + 'a \<Rightarrow> ('a \<Rightarrow> string + 'b) \<Rightarrow> string + 'b" where
  "bind_err r f = (case r of Inl msg \<Rightarrow> Inl msg | Inr x \<Rightarrow> f x)"

text \<open>\<^verbatim>\<open>try: return d except Exception as e: return {"error": str(e)}\<close>\<close>

definition or_error_dict :: "string + dict \<Rightarrow> dict" where
  "or_error_dict r = (case r of Inl msg \<Rightarrow> [(''error'', JStr msg)] | Inr d \<Rightarrow> d)"

text \<open>What stands on standard output: a JSON value, or the usage text of argparse.\<close>

datatype stdout_item = Json json | Usage

fun printed :: "event \<Rightarrow> stdout_item list" where
  "printed (Print j) = [Json j]"
| "printed Print_help = [Usage]"
| "printed _ = []"

definition stdout :: "event list \<Rightarrow> stdout_item list" where
  "stdout t = concat (map printed t)"


fun type_name :: "json \<Rightarrow> string" where
  "type_name JNull = ''NoneType''"
| "type_name (JBool b) = ''bool''"
| "type_name (JInt i) = ''int''"
| "type_name (JFloat r) = ''float''"
| "type_name (JStr s) = ''str''"
| "type_name (JArr xs) = ''list''"
| "type_name (JObj kvs) = ''dict''"

definition quoted :: "string \<Rightarrow> string" where
  "quoted s = [CHR 0x27] @ s @ [CHR 0x27]"

text \<open>\<^verbatim>\<open>params.get(key, default)\<close>: only a dict has the method.\<close>

fun params_get :: "json \<Rightarrow> string \<Rightarrow> json \<Rightarrow> string + json" where
  "params_get (JObj kvs) k d = Inr (case map_of kvs k of None \<Rightarrow> d | Some v \<Rightarrow> v)"
| "params_get v k d = Inl (quoted (type_name v) @ '' object has no attribute '' @ quoted ''get'')"

text \<open>Python's truth value of a value read from JSON.\<close>

fun truthy :: "json \<Rightarrow> bool" where
  "truthy JNull = False"
| "truthy (JBool b) = b"
| "truthy (JInt i) = (i \<noteq> 0)"
| "truthy (JFloat r) = (r \<noteq> 0)"
| "truthy (JStr s) = (s \<noteq> [])"
| "truthy (JArr xs) = (xs \<noteq> [])"
| "truthy (JObj kvs) = (kvs \<noteq> [])"

section \<open>The command line\<close>

text \<open>
  The command line, as the sequence of what argparse reads from it: \<^verbatim>\<open>-h\<close> or
  \<^verbatim>\<open>--help\<close>, one of the four options of the two scripts with its value, or anything else.
  How one option is written (abbreviations, \<^verbatim>\<open>--option=value\<close>, a missing value) is not
  modelled.
\<close>

datatype arg =
    Help
  | Operation string
  | Request_id string
  | Params string
  | Audio string
  | Other string

type_synonym cmdline = "arg list"

record args =
  args_operation :: string
  args_request_id :: string

record ldm_args = args +
  args_params :: string

record w2v_args = args +
  args_audio :: string

definition ldm_choices :: "string list" where
  "ldm_choices = [''test-env'', ''load-model'', ''generate'', ''read-audio'']"

definition w2v_choices :: "string list" where
  "w2v_choices = [''process'', ''analyze'']"

text \<open>
  \<^verbatim>\<open>parser.parse_args()\<close> for the parser of lines 144 to 148. argparse reads the command line
  from left to right. At \<^verbatim>\<open>--help\<close> it prints the usage text on standard output and calls
  \<^verbatim>\<open>sys.exit(0)\<close>. At a value of \<^verbatim>\<open>--operation\<close> outside the choices it prints a message on
  standard error and calls \<^verbatim>\<open>sys.exit(2)\<close>. A later value of an option replaces an earlier
  one, and what the parser does not declare is set aside. At the end, a required option that
  is missing, or anything set aside, ends the run with \<^verbatim>\<open>sys.exit(2)\<close> as well. The
  arguments after the list are the values stored so far and whether anything was set aside.
\<close>

fun ldm_scan ::
  "arg list \<Rightarrow> string option \<Rightarrow> string option \<Rightarrow> string option \<Rightarrow> bool \<Rightarrow> ldm_args comp" where
  "ldm_scan [] op rid ps extras =
     (case (op, rid, ps) of
        (Some op, Some rid, Some ps) \<Rightarrow>
          if extras then sys_exit 2
          else py_return \<lparr>args_operation = op, args_request_id = rid, args_params = ps\<rparr>
      | _ \<Rightarrow> sys_exit 2)"
| "ldm_scan (Help # rest) op rid ps extras = py_bind (emit Print_help) (\<lambda>_. sys_exit 0)"
| "ldm_scan (Operation v # rest) op rid ps extras =
     (if v \<in> set ldm_choices then ldm_scan rest (Some v) rid ps extras else sys_exit 2)"
| "ldm_scan (Request_id v # rest) op rid ps extras = ldm_scan rest op (Some v) ps extras"
| "ldm_scan (Params v # rest) op rid ps extras = ldm_scan rest op rid (Some v) extras"
| "ldm_scan (Audio v # rest) op rid ps extras = ldm_scan rest op rid ps True"
| "ldm_scan (Other v # rest) op rid ps extras = ldm_scan rest op rid ps True"

definition ldm_parse_args :: "cmdline \<Rightarrow> ldm_args comp" where
  "ldm_parse_args cl = ldm_scan cl None None None False"

text \<open>The same for the parser of lines 67 to 70 of the second script.\<close>

fun w2v_scan ::
  "arg list \<Rightarrow> string option \<Rightarrow> string option \<Rightarrow> string option \<Rightarrow> bool \<Rightarrow> w2v_args comp" where
  "w2v_scan [] op a rid extras =
     (case (op, a, rid) of
        (Some op, Some a, Some rid) \<Rightarrow>
          if extras then sys_exit 2
          else py_return \<lparr>args_operation = op, args_request_id = rid, args_audio = a\<rparr>
      | _ \<Rightarrow> sys_exit 2)"
| "w2v_scan (Help # rest) op a rid extras = py_bind (emit Print_help) (\<lambda>_. sys_exit 0)"
| "w2v_scan (Operation v # rest) op a rid extras =
     (if v \<in> set w2v_choices then w2v_scan rest (Some v) a rid extras else sys_exit 2)"
| "w2v_scan (Audio v # rest) op a rid extras = w2v_scan rest op (Some v) rid extras"
| "w2v_scan (Request_id v # rest) op a rid extras = w2v_scan rest op a (Some v) extras"
| "w2v_scan (Params v # rest) op a rid extras = w2v_scan rest op a rid True"
| "w2v_scan (Other v # rest) op a rid extras = w2v_scan rest op a rid True"

definition w2v_parse_args :: "cmdline \<Rightarrow> w2v_args comp" where
  "w2v_parse_args cl = w2v_scan cl None None None False"

text \<open>The value that \<^verbatim>\<open>--request-id\<close> was given on the command line: the last one.\<close>

fun request_ids :: "arg list \<Rightarrow> string list" where
  "request_ids [] = []"
| "request_ids (Request_id v # rest) = v # request_ids rest"
| "request_ids (x # rest) = request_ids rest"

definition opt_request_id :: "cmdline \<Rightarrow> string option" where
  "opt_request_id cl = (if request_ids cl = [] then None else Some (last (request_ids cl)))"

text \<open>
  The process: \<^verbatim>\<open>if __name__ == '__main__': main()\<close>. An exception that nothing catches
  ends the interpreter with a traceback on standard error and status 1.
\<close>

record outcome =
  trace :: "event list"
  exit_code :: nat

definition run :: "unit comp \<Rightarrow> outcome" where
  "run m =
     (case snd m of
        Inr u \<Rightarrow> \<lparr>trace = fst m, exit_code = 0\<rparr>
      | Inl (SystemExit n) \<Rightarrow> \<lparr>trace = fst m, exit_code = n\<rparr>
      | Inl (Exception msg) \<Rightarrow> \<lparr>trace = fst m, exit_code = 1\<rparr>)"

section \<open>Libraries shared by the two scripts\<close>

record host =
  cuda_is_available :: bool
  sf_read :: "json \<Rightarrow> string + (ndarray \<times> int)"

section \<open>The first adapter: \<^verbatim>\<open>audioldm_operations.py\<close>\<close>

text \<open>
  \<open>'m\<close> is a loaded AudioLDM model, \<open>'w\<close> a generated waveform. A field of type
  \<open>string + 'a\<close> is a call that may raise: \<open>Inl msg\<close> is an \<^verbatim>\<open>Exception\<close> with that message.
\<close>

record ('m, 'w) ldm_lib = host +
  json_loads :: "string \<Rightarrow> string + json"
  bits_and_bytes_config :: "qconfig \<Rightarrow> string + qconfig"
  audioldm_init :: "json \<Rightarrow> string \<Rightarrow> qconfig option \<Rightarrow> string + 'm"
  model_half :: "'m \<Rightarrow> string + 'm"
  has_gradient_checkpointing :: "'m \<Rightarrow> bool"
  enable_gradient_checkpointing :: "'m \<Rightarrow> string + 'm"
  makedirs :: "json \<Rightarrow> string + unit"
  format_str :: "json \<Rightarrow> string"
  path_join :: "json \<Rightarrow> string \<Rightarrow> string + string"
  model_generate :: "'m \<Rightarrow> json \<Rightarrow> json \<Rightarrow> json \<Rightarrow> json \<Rightarrow> json \<Rightarrow> string + 'w"
  waveform_first :: "'w \<Rightarrow> string + 'w"
  sf_write :: "string \<Rightarrow> 'w \<Rightarrow> json \<Rightarrow> string + unit"
  npy_base64 :: "ndarray \<Rightarrow> string"
  get_device_name :: "string + json"
  total_memory :: "string + json"
  memory_allocated :: "string + json"
  cuda_version :: json
  python_version :: string
  pytorch_version :: string

text \<open>The body of the \<^verbatim>\<open>try\<close> of \<^verbatim>\<open>load_model\<close> (lines 18 to 45).\<close>

definition ldm_load_model_body ::
  "('m, 'w) ldm_lib \<Rightarrow> json \<Rightarrow> json \<Rightarrow> json \<Rightarrow> 'm comp" where
  "ldm_load_model_body env model_path quantization use_half_precision =
     py_bind
       (if quantization = JStr ''8bit''
        then py_bind (lib (bits_and_bytes_config env Load_in_8bit)) (\<lambda>c. py_return (Some c))
        else if quantization = JStr ''4bit''
        then py_bind (lib (bits_and_bytes_config env Load_in_4bit)) (\<lambda>c. py_return (Some c))
        else py_return None)
       (\<lambda>quantization_config.
     let device = (if cuda_is_available env then ''cuda'' else ''cpu'') in
     py_bind (emit (AudioLDM_init model_path device quantization_config)) (\<lambda>_.
     py_bind (lib (audioldm_init env model_path device quantization_config)) (\<lambda>model.
     py_bind
       (if truthy use_half_precision \<and> quantization = JStr ''none'' \<and> device = ''cuda''
        then py_bind (emit Model_half) (\<lambda>_. lib (model_half env model))
        else py_return model)
       (\<lambda>model.
     py_bind
       (if has_gradient_checkpointing env model
        then lib (enable_gradient_checkpointing env model)
        else py_return model)
       (\<lambda>model. py_return model)))))"

definition ldm_load_model ::
  "('m, 'w) ldm_lib \<Rightarrow> json \<Rightarrow> json \<Rightarrow> json \<Rightarrow> 'm comp" where
  "ldm_load_model env model_path quantization use_half_precision =
     py_try (ldm_load_model_body env model_path quantization use_half_precision)
       (\<lambda>msg. py_bind (emit (Print (JObj [(''error'', JStr msg)]))) (\<lambda>_. sys_exit 1))"

definition generate_audio ::
  "('m, 'w) ldm_lib \<Rightarrow> 'm \<Rightarrow> json \<Rightarrow> json \<Rightarrow> json \<Rightarrow> json \<Rightarrow> json \<Rightarrow> json \<Rightarrow> json \<Rightarrow> json
     \<Rightarrow> dict" where
  "generate_audio env model prompt output_dir output_name steps guidance_scale batch_size
       duration sample_rate =
     or_error_dict
       (bind_err (makedirs env output_dir) (\<lambda>_.
        bind_err (path_join env output_dir (format_str env output_name @ ''.wav''))
          (\<lambda>output_path.
        bind_err (model_generate env model prompt guidance_scale steps duration batch_size)
          (\<lambda>waveform.
        bind_err (waveform_first env waveform) (\<lambda>w0.
        bind_err (sf_write env output_path w0 sample_rate) (\<lambda>_.
        Inr [(''path'', JStr output_path),
             (''sample_rate'', sample_rate),
             (''duration'', duration)]))))))"

text \<open>\<^verbatim>\<open>len(audio.shape) > 1 and audio.shape[1] > 1\<close>\<close>

fun is_multichannel :: "ndarray \<Rightarrow> bool" where
  "is_multichannel (Arr1 xs) = False"
| "is_multichannel (Arr2 c rows) = (c > 1)"

text \<open>\<^verbatim>\<open>np.mean(audio, axis=1)\<close>\<close>

fun np_mean_axis1 :: "ndarray \<Rightarrow> string + ndarray" where
  "np_mean_axis1 (Arr1 xs) = Inl ''axis 1 is out of bounds for array of dimension 1''"
| "np_mean_axis1 (Arr2 c rows) = Inr (Arr1 (map (\<lambda>row. sum_list row / of_nat c) rows))"

text \<open>\<^verbatim>\<open>audio.astype(np.float32)\<close>: the shape stays, and the values are idealised.\<close>

definition astype_float32 :: "ndarray \<Rightarrow> ndarray" where
  "astype_float32 a = a"

text \<open>\<^verbatim>\<open>len(audio)\<close>: the size of the first axis.\<close>

fun np_len :: "ndarray \<Rightarrow> nat" where
  "np_len (Arr1 xs) = length xs"
| "np_len (Arr2 c rows) = length rows"

text \<open>\<^verbatim>\<open>n / sample_rate\<close> on two Python ints.\<close>

definition true_div :: "nat \<Rightarrow> int \<Rightarrow> string + rat" where
  "true_div n d = (if d = 0 then Inl ''division by zero'' else Inr (of_nat n / of_int d))"

text \<open>Lines 93 to 98 of \<^verbatim>\<open>read_audio_file\<close>: what is encoded, from what was read.\<close>

definition to_mono_float32 :: "ndarray \<Rightarrow> string + ndarray" where
  "to_mono_float32 audio =
     bind_err (if is_multichannel audio then np_mean_axis1 audio else Inr audio)
       (\<lambda>audio. Inr (astype_float32 audio))"

definition read_audio_file :: "('m, 'w) ldm_lib \<Rightarrow> json \<Rightarrow> dict" where
  "read_audio_file env file_path =
     or_error_dict
       (bind_err (sf_read env file_path) (\<lambda>(audio, sample_rate).
        bind_err (to_mono_float32 audio) (\<lambda>audio.
        bind_err (true_div (np_len audio) sample_rate) (\<lambda>duration.
        let encoded = npy_base64 env audio in
        Inr [(''audio_data'', JStr encoded),
             (''sample_rate'', JInt sample_rate),
             (''duration'', JFloat duration)]))))"

definition test_environment :: "('m, 'w) ldm_lib \<Rightarrow> dict" where
  "test_environment env =
     or_error_dict
       (let cuda_available = cuda_is_available env in
        bind_err
          (if cuda_available
           then bind_err (get_device_name env) (\<lambda>name.
                bind_err (total_memory env) (\<lambda>mem_total.
                bind_err (memory_allocated env) (\<lambda>mem_allocated.
                Inr [(''name'', name),
                     (''mem_total'', mem_total),
                     (''mem_allocated'', mem_allocated),
                     (''cuda_version'', cuda_version env)])))
           else Inr [])
          (\<lambda>gpu_info.
        Inr [(''status'', JStr ''ok''),
             (''python_version'', JStr (python_version env)),
             (''pytorch_version'', JStr (pytorch_version env)),
             (''cuda_available'', JBool cuda_available),
             (''gpu_info'', JObj gpu_info)]))"

text \<open>The three \<^verbatim>\<open>params.get\<close> calls and the \<^verbatim>\<open>load_model\<close> call of lines 161 and 169.\<close>

definition ldm_load_from_params :: "('m, 'w) ldm_lib \<Rightarrow> json \<Rightarrow> 'm comp" where
  "ldm_load_from_params env params =
     py_bind (lib (params_get params ''model_path'' (JStr ''latent-diffusion/audioldm-s-full'')))
       (\<lambda>model_path.
     py_bind (lib (params_get params ''quantization'' (JStr ''8bit''))) (\<lambda>quantization.
     py_bind (lib (params_get params ''use_half_precision'' (JBool True))) (\<lambda>use_half_precision.
     ldm_load_model env model_path quantization use_half_precision)))"

text \<open>The \<^verbatim>\<open>if\<close>/\<^verbatim>\<open>elif\<close> chain of \<^verbatim>\<open>main\<close> (lines 154 to 187): the value of \<^verbatim>\<open>result\<close>.\<close>

definition ldm_dispatch :: "('m, 'w) ldm_lib \<Rightarrow> string \<Rightarrow> json \<Rightarrow> dict comp" where
  "ldm_dispatch env op params =
     (if op = ''test-env'' then py_return (test_environment env)
      else if op = ''load-model'' then
        py_bind (ldm_load_from_params env params) (\<lambda>model.
        py_return [(''status'', JStr ''Model loaded successfully'')])
      else if op = ''generate'' then
        py_bind (ldm_load_from_params env params) (\<lambda>model.
        py_bind (lib (params_get params ''prompt'' (JStr []))) (\<lambda>prompt.
        py_bind (lib (params_get params ''output_dir'' (JStr ''./output''))) (\<lambda>output_dir.
        py_bind (lib (params_get params ''output_name'' (JStr ''audio''))) (\<lambda>output_name.
        py_bind (lib (params_get params ''steps'' (JInt 25))) (\<lambda>steps.
        py_bind (lib (params_get params ''guidance_scale'' (JFloat (7 / 2)))) (\<lambda>guidance_scale.
        py_bind (lib (params_get params ''batch_size'' (JInt 1))) (\<lambda>batch_size.
        py_bind (lib (params_get params ''duration'' (JFloat 5))) (\<lambda>duration.
        py_bind (lib (params_get params ''sample_rate'' (JInt 16000))) (\<lambda>sample_rate.
        py_return (generate_audio env model prompt output_dir output_name steps
                     guidance_scale batch_size duration sample_rate))))))))))
      else if op = ''read-audio'' then
        py_bind (lib (params_get params ''file_path'' (JStr []))) (\<lambda>file_path.
        py_return (read_audio_file env file_path))
      else py_return [])"

text \<open>The \<^verbatim>\<open>try\<close> of \<^verbatim>\<open>main\<close> with its handler (lines 153 to 201).\<close>

definition ldm_try :: "('m, 'w) ldm_lib \<Rightarrow> ldm_args \<Rightarrow> json \<Rightarrow> unit comp" where
  "ldm_try env a params =
     py_try
       (py_bind (ldm_dispatch env (args_operation a) params) (\<lambda>result.
        emit (Print (JObj (AList.update ''request_id'' (JStr (args_request_id a)) result)))))
       (\<lambda>msg.
        py_bind (emit (Print (JObj [(''error'', JStr msg),
                                    (''request_id'', JStr (args_request_id a))]))) (\<lambda>_.
        sys_exit 1))"

definition ldm_main :: "('m, 'w) ldm_lib \<Rightarrow> cmdline \<Rightarrow> unit comp" where
  "ldm_main env cl =
     py_bind (ldm_parse_args cl) (\<lambda>a.
     py_bind (lib (json_loads env (args_params a))) (\<lambda>params.
     ldm_try env a params))"

definition ldm_script :: "('m, 'w) ldm_lib \<Rightarrow> cmdline \<Rightarrow> outcome" where
  "ldm_script env cl = run (ldm_main env cl)"

section \<open>The second adapter: \<^verbatim>\<open>wav2vec2_operations.py\<close>\<close>

text \<open>
  What \<^verbatim>\<open>tensor.cpu().numpy().tolist()\<close> returns: a Python float for a tensor without
  dimensions, nested lists otherwise.
\<close>

datatype pylist = Scalar rat | Nested "pylist list"

fun to_json :: "pylist \<Rightarrow> json" where
  "to_json (Scalar r) = JFloat r"
| "to_json (Nested xs) = JArr (map to_json xs)"

text \<open>\<^verbatim>\<open>v[0]\<close>\<close>

fun subscript0 :: "pylist \<Rightarrow> string + pylist" where
  "subscript0 (Scalar r) = Inl (quoted ''float'' @ '' object is not subscriptable'')"
| "subscript0 (Nested []) = Inl ''list index out of range''"
| "subscript0 (Nested (x # xs)) = Inr x"

text \<open>\<^verbatim>\<open>v[:20]\<close>\<close>

fun slice20 :: "pylist \<Rightarrow> string + pylist" where
  "slice20 (Scalar r) = Inl (quoted ''float'' @ '' object is not subscriptable'')"
| "slice20 (Nested xs) = Inr (Nested (take 20 xs))"

text \<open>\<^verbatim>\<open>len(v)\<close>\<close>

fun py_len :: "pylist \<Rightarrow> string + nat" where
  "py_len (Scalar r) = Inl (''object of type '' @ quoted ''float'' @ '' has no len()'')"
| "py_len (Nested xs) = Inr (length xs)"

text \<open>\<^verbatim>\<open>transcription[0]\<close> on the list of strings that \<^verbatim>\<open>batch_decode\<close> returns.\<close>

fun first_str :: "string list \<Rightarrow> string + string" where
  "first_str [] = Inl ''list index out of range''"
| "first_str (s # ss) = Inr s"

text \<open>
  \<open>'m\<close> is the loaded model, \<open>'p\<close> the processor, \<open>'i\<close> the processor's output and
  \<open>'t\<close> a torch tensor.
\<close>

record ('m, 'p, 'i, 't) w2v_lib = host +
  processor_from_pretrained :: "string \<Rightarrow> string + 'p"
  model_from_pretrained :: "string \<Rightarrow> string + 'm"
  model_to_cuda :: "'m \<Rightarrow> string + 'm"
  processor_call :: "'p \<Rightarrow> ndarray \<Rightarrow> int \<Rightarrow> string + 'i"
  inputs_to_cuda :: "'i \<Rightarrow> string + 'i"
  model_logits :: "'m \<Rightarrow> 'i \<Rightarrow> string + 't"
  argmax_last :: "'t \<Rightarrow> string + 't"
  batch_decode :: "'p \<Rightarrow> 't \<Rightarrow> string + string list"
  max_float :: "'t \<Rightarrow> string + rat"
  last_hidden_state :: "'m \<Rightarrow> 'i \<Rightarrow> string + 't"
  mean_dim1 :: "'t \<Rightarrow> string + 't"
  tolist :: "'t \<Rightarrow> string + pylist"

definition w2v_load_model :: "('m, 'p, 'i, 't) w2v_lib \<Rightarrow> string \<Rightarrow> ('m \<times> 'p) comp" where
  "w2v_load_model env model_name =
     py_bind (emit (From_pretrained model_name)) (\<lambda>_.
     py_bind (lib (processor_from_pretrained env model_name)) (\<lambda>processor.
     py_bind (emit (From_pretrained model_name)) (\<lambda>_.
     py_bind (lib (model_from_pretrained env model_name)) (\<lambda>model.
     py_bind
       (if cuda_is_available env then lib (model_to_cuda env model) else py_return model)
       (\<lambda>model. py_return (model, processor))))))"

text \<open>Lines 21 to 27, the same in both operations: read, preprocess, move to the device.\<close>

definition w2v_inputs :: "('m, 'p, 'i, 't) w2v_lib \<Rightarrow> string \<Rightarrow> 'p \<Rightarrow> 'i comp" where
  "w2v_inputs env audio_path processor =
     py_bind (lib (sf_read env (JStr audio_path))) (\<lambda>(audio, sample_rate).
     py_bind (emit (Processor_call audio sample_rate)) (\<lambda>_.
     py_bind (lib (processor_call env processor audio sample_rate)) (\<lambda>inputs.
     if cuda_is_available env then lib (inputs_to_cuda env inputs) else py_return inputs)))"

definition process_audio ::
  "('m, 'p, 'i, 't) w2v_lib \<Rightarrow> string \<Rightarrow> 'm \<Rightarrow> 'p \<Rightarrow> dict comp" where
  "process_audio env audio_path model processor =
     py_bind (w2v_inputs env audio_path processor) (\<lambda>inputs.
     py_bind (lib (model_logits env model inputs)) (\<lambda>logits.
     py_bind (lib (argmax_last env logits)) (\<lambda>predicted_ids.
     py_bind (lib (batch_decode env processor predicted_ids)) (\<lambda>transcription.
     py_bind (lib (first_str transcription)) (\<lambda>t0.
     py_bind (lib (max_float env logits)) (\<lambda>confidence.
     py_return [(''transcription'', JStr t0),
                (''confidence'', JFloat confidence)]))))))"

text \<open>Lines 44 to 59 of \<^verbatim>\<open>analyze_audio\<close>: the value of \<^verbatim>\<open>feature_list\<close>.\<close>

definition feature_list ::
  "('m, 'p, 'i, 't) w2v_lib \<Rightarrow> string \<Rightarrow> 'm \<Rightarrow> 'p \<Rightarrow> pylist comp" where
  "feature_list env audio_path model processor =
     py_bind (w2v_inputs env audio_path processor) (\<lambda>inputs.
     py_bind (lib (last_hidden_state env model inputs)) (\<lambda>hidden.
     py_bind (lib (mean_dim1 env hidden)) (\<lambda>features.
     py_bind (lib (tolist env features)) (\<lambda>l.
     lib (subscript0 l)))))"

definition analyze_audio ::
  "('m, 'p, 'i, 't) w2v_lib \<Rightarrow> string \<Rightarrow> 'm \<Rightarrow> 'p \<Rightarrow> dict comp" where
  "analyze_audio env audio_path model processor =
     py_bind (feature_list env audio_path model processor) (\<lambda>fl.
     py_bind (lib (slice20 fl)) (\<lambda>sample.
     py_bind (lib (py_len fl)) (\<lambda>n.
     py_return [(''features'', to_json sample),
                (''feature_count'', JInt (int n))])))"

text \<open>The body of the \<^verbatim>\<open>try\<close> of \<^verbatim>\<open>main\<close> up to the value of \<^verbatim>\<open>result\<close> (lines 75 to 82).\<close>

definition w2v_dispatch :: "('m, 'p, 'i, 't) w2v_lib \<Rightarrow> w2v_args \<Rightarrow> dict comp" where
  "w2v_dispatch env a =
     py_bind (w2v_load_model env ''facebook/wav2vec2-base-960h'') (\<lambda>(model, processor).
     if args_operation a = ''process''
     then process_audio env (args_audio a) model processor
     else analyze_audio env (args_audio a) model processor)"

definition w2v_try :: "('m, 'p, 'i, 't) w2v_lib \<Rightarrow> w2v_args \<Rightarrow> unit comp" where
  "w2v_try env a =
     py_try
       (py_bind (w2v_dispatch env a) (\<lambda>result.
        emit (Print (JObj (AList.update ''request_id'' (JStr (args_request_id a)) result)))))
       (\<lambda>msg.
        py_bind (emit (Print (JObj [(''error'', JStr msg),
                                    (''request_id'', JStr (args_request_id a))]))) (\<lambda>_.
        sys_exit 1))"

definition w2v_main :: "('m, 'p, 'i, 't) w2v_lib \<Rightarrow> cmdline \<Rightarrow> unit comp" where
  "w2v_main env cl = py_bind (w2v_parse_args cl) (\<lambda>a. w2v_try env a)"

definition w2v_script :: "('m, 'p, 'i, 't) w2v_lib \<Rightarrow> cmdline \<Rightarrow> outcome" where
  "w2v_script env cl = run (w2v_main env cl)"

text \<open>The arrays that an event hands to the speech model's preprocessor.\<close>

fun preprocessor_input :: "event \<Rightarrow> ndarray list" where
  "preprocessor_input (Processor_call a sr) = [a]"
| "preprocessor_input _ = []"

section \<open>Shapes of a computation\<close>

text \<open>
  A computation is quiet when it prints nothing and does not call \<^verbatim>\<open>sys.exit\<close>. The model
  loader of the first adapter is either quiet or ends the way its handler does: one error
  object on standard output, then \<^verbatim>\<open>sys.exit(1)\<close>.
\<close>

definition quiet :: "'a comp \<Rightarrow> bool" where
  "quiet m = (stdout (fst m) = [] \<and> (\<forall>n. snd m \<noteq> Inl (SystemExit n)))"

definition exits_with_error :: "'a comp \<Rightarrow> bool" where
  "exits_with_error m =
     (\<exists>msg. stdout (fst m) = [Json (JObj [(''error'', JStr msg)])] \<and> snd m = Inl (SystemExit 1))"

definition load_shape :: "'a comp \<Rightarrow> bool" where
  "load_shape m = (quiet m \<or> exits_with_error m)"

text \<open>
  A handler's result either is the error dict \<^verbatim>\<open>{"error": msg}\<close> or has no key
  \<^verbatim>\<open>error\<close>.
\<close>

definition no_error_key :: "string + dict \<Rightarrow> bool" where
  "no_error_key r = (case r of Inl msg \<Rightarrow> True | Inr d \<Rightarrow> map_of d ''error'' = None)"

definition result_shape :: "dict \<Rightarrow> bool" where
  "result_shape d = ((\<exists>msg. d = [(''error'', JStr msg)]) \<or> map_of d ''error'' = None)"

section \<open>Sample hosts\<close>

text \<open>
  Concrete hosts on which the scripts are run below. \<open>sample_json_loads\<close> lists what
  \<^verbatim>\<open>json.loads\<close> does on the four argument strings used here: \<^verbatim>\<open>{}\<close>, \<^verbatim>\<open>[]\<close>,
  \<^verbatim>\<open>{"model_path": "missing"}\<close> and the malformed \<^verbatim>\<open>{\<close>. The one audio file that
  exists is a stereo file of two frames at 16 kHz.
\<close>

definition dq :: "string \<Rightarrow> string" where
  "dq s = [CHR 0x22] @ s @ [CHR 0x22]"

definition sample_json_loads :: "string \<Rightarrow> string + json" where
  "sample_json_loads s =
     (if s = ''{}'' then Inr (JObj [])
      else if s = ''[]'' then Inr (JArr [])
      else if s = ''{'' @ dq ''model_path'' @ '': '' @ dq ''missing'' @ ''}''
      then Inr (JObj [(''model_path'', JStr ''missing'')])
      else Inl ''Expecting property name enclosed in double quotes: line 1 column 2 (char 1)'')"

definition sample_sf_read :: "json \<Rightarrow> string + (ndarray \<times> int)" where
  "sample_sf_read file =
     (if file = JStr ''stereo.wav'' then Inr (Arr2 2 [[1, 3], [2, 4]], 16000)
      else Inl ''Error opening file: System error.'')"

definition sample_ldm :: "bool \<Rightarrow> (unit, unit) ldm_lib" where
  "sample_ldm cuda =
     \<lparr>cuda_is_available = cuda,
      sf_read = sample_sf_read,
      json_loads = sample_json_loads,
      bits_and_bytes_config = (\<lambda>c. Inr c),
      audioldm_init = (\<lambda>p d c. if p = JStr ''missing'' then Inl ''model not found'' else Inr ()),
      model_half = (\<lambda>m. Inr m),
      has_gradient_checkpointing = (\<lambda>m. True),
      enable_gradient_checkpointing = (\<lambda>m. Inr m),
      makedirs = (\<lambda>d. Inr ()),
      format_str = (\<lambda>v. case v of JStr s \<Rightarrow> s | _ \<Rightarrow> ''value''),
      path_join = (\<lambda>d f. case d of JStr s \<Rightarrow> Inr (s @ ''/'' @ f)
                           | _ \<Rightarrow> Inl ''expected str, bytes or os.PathLike object''),
      model_generate = (\<lambda>m prompt guidance steps duration batch. Inr ()),
      waveform_first = (\<lambda>w. Inr w),
      sf_write = (\<lambda>p w sr. Inr ()),
      npy_base64 = (\<lambda>a. ''k05VTVBZ''),
      get_device_name = Inr (JStr ''GPU 0''),
      total_memory = Inr (JInt 8589934592),
      memory_allocated = Inr (JInt 0),
      cuda_version = JStr ''12.1'',
      python_version = ''3.10.12'',
      pytorch_version = ''2.1.0''\<rparr>"

definition sample_w2v :: "(unit, unit, ndarray, pylist) w2v_lib" where
  "sample_w2v =
     \<lparr>cuda_is_available = False,
      sf_read = sample_sf_read,
      processor_from_pretrained = (\<lambda>n. Inr ()),
      model_from_pretrained = (\<lambda>n. Inr ()),
      model_to_cuda = (\<lambda>m. Inr m),
      processor_call = (\<lambda>p a sr. Inr a),
      inputs_to_cuda = (\<lambda>i. Inr i),
      model_logits = (\<lambda>m i. Inr (Nested [])),
      argmax_last = (\<lambda>t. Inr t),
      batch_decode = (\<lambda>p t. Inr [''HELLO'']),
      max_float = (\<lambda>t. Inr 1),
      last_hidden_state = (\<lambda>m i. Inr (Nested [Nested (map Scalar
         [1, 2, 3, 4, 5, 6, 7, 8, 9, 10, 11, 12, 13, 14, 15, 16, 17, 18, 19, 20, 21])])),
      mean_dim1 = (\<lambda>t. Inr t),
      tolist = (\<lambda>t. Inr t)\<rparr>"

definition ldm_cmd :: "string \<Rightarrow> string \<Rightarrow> string \<Rightarrow> cmdline" where
  "ldm_cmd op rid ps = [Operation op, Request_id rid, Params ps]"

definition w2v_cmd :: "string \<Rightarrow> string \<Rightarrow> string \<Rightarrow> cmdline" where
  "w2v_cmd op rid a = [Operation op, Audio a, Request_id rid]"

section \<open>Sequencing, printing and the shapes\<close>

lemma snd_py_bind: "snd (py_bind m f) = (case snd m of Inl e \<Rightarrow> Inl e | Inr x \<Rightarrow> snd (f x))"
  by (simp add: py_bind_def split: sum.splits)

lemma fst_py_bind: "fst (py_bind m f) = fst m @ (case snd m of Inl e \<Rightarrow> [] | Inr x \<Rightarrow> fst (f x))"
  by (simp add: py_bind_def split: sum.splits)

lemma py_bind_return: "py_bind (py_return x) f = f x"
  by (simp add: py_bind_def py_return_def)

lemma py_bind_lib_Inr: "py_bind (lib (Inr x)) f = f x"
  by (simp add: py_bind_def lib_def)

lemma py_bind_lib_Inl: "py_bind (lib (Inl msg)) f = ([], Inl (Exception msg))"
  by (simp add: py_bind_def lib_def)

lemma py_bind_emit: "py_bind (emit e) f = (e # fst (f ()), snd (f ()))"
  by (simp add: py_bind_def emit_def)

lemma py_bind_sys_exit: "py_bind (sys_exit n) f = ([], Inl (SystemExit n))"
  by (simp add: py_bind_def sys_exit_def)

lemma stdout_Nil [simp]: "stdout [] = []"
  by (simp add: stdout_def)

lemma stdout_Cons [simp]: "stdout (e # t) = printed e @ stdout t"
  by (simp add: stdout_def)

lemma stdout_append [simp]: "stdout (s @ t) = stdout s @ stdout t"
  by (simp add: stdout_def)

lemma quiet_return [simp]: "quiet (py_return x)"
  by (simp add: quiet_def py_return_def)

lemma quiet_lib [simp]: "quiet (lib r)"
  by (simp add: quiet_def lib_def split: sum.splits)

lemma quiet_emit [simp]: "printed e = [] \<Longrightarrow> quiet (emit e)"
  by (simp add: quiet_def emit_def)

lemma quiet_bind: "quiet m \<Longrightarrow> (\<And>x. quiet (f x)) \<Longrightarrow> quiet (py_bind m f)"
  by (cases "snd m") (simp_all add: quiet_def fst_py_bind snd_py_bind)

lemma quiet_if: "quiet a \<Longrightarrow> quiet b \<Longrightarrow> quiet (if c then a else b)"
  by simp

lemma quiet_case_prod: "(\<And>a b. quiet (f a b)) \<Longrightarrow> quiet (case_prod f x)"
  by (cases x) simp

lemmas quiet_intros = quiet_bind quiet_if quiet_case_prod quiet_return quiet_lib quiet_emit

lemma quiet_w2v_load_model: "quiet (w2v_load_model env n)"
  unfolding w2v_load_model_def by (intro quiet_intros) simp_all

lemma quiet_w2v_inputs: "quiet (w2v_inputs env p pr)"
  unfolding w2v_inputs_def by (intro quiet_intros) simp_all

lemma quiet_process_audio: "quiet (process_audio env p m pr)"
  unfolding process_audio_def by (intro quiet_intros quiet_w2v_inputs)

lemma quiet_feature_list: "quiet (feature_list env p m pr)"
  unfolding feature_list_def by (intro quiet_intros quiet_w2v_inputs)

lemma quiet_analyze_audio: "quiet (analyze_audio env p m pr)"
  unfolding analyze_audio_def by (intro quiet_intros quiet_feature_list)

lemma quiet_w2v_dispatch: "quiet (w2v_dispatch env a)"
  unfolding w2v_dispatch_def
  by (intro quiet_intros quiet_w2v_load_model quiet_process_audio quiet_analyze_audio)


lemma load_shape_quiet: "quiet m \<Longrightarrow> load_shape m"
  by (simp add: load_shape_def)

lemma load_shape_bind:
  assumes "load_shape m" and "\<And>x. load_shape (f x)"
  shows "load_shape (py_bind m f)"
proof (cases "snd m")
  case (Inl e)
  then have "fst (py_bind m f) = fst m" and "snd (py_bind m f) = Inl e"
    by (simp_all add: fst_py_bind snd_py_bind)
  with assms(1) Inl show ?thesis
    by (simp add: load_shape_def quiet_def exits_with_error_def)
next
  case (Inr x)
  with assms(1) have "stdout (fst m) = []"
    by (auto simp: load_shape_def quiet_def exits_with_error_def)
  with Inr assms(2) [of x] show ?thesis
    by (auto simp: load_shape_def quiet_def exits_with_error_def fst_py_bind snd_py_bind)
qed

lemma quiet_ldm_load_model_body: "quiet (ldm_load_model_body env mp q h)"
  unfolding ldm_load_model_body_def Let_def by (intro quiet_intros) simp_all

lemma py_try_quiet:
  assumes "quiet m"
  shows "(\<exists>x. snd m = Inr x \<and> py_try m h = m) \<or>
         (\<exists>msg. snd m = Inl (Exception msg) \<and>
            py_try m h = (fst m @ fst (h msg), snd (h msg)))"
proof (cases "snd m")
  case (Inl e)
  with assms show ?thesis
    by (cases e) (simp_all add: quiet_def py_try_def)
next
  case (Inr x)
  then show ?thesis by (simp add: py_try_def)
qed

lemma ldm_load_model_shape: "load_shape (ldm_load_model env mp q h)"
  using py_try_quiet [OF quiet_ldm_load_model_body, of env mp q h
      "\<lambda>msg. py_bind (emit (Print (JObj [(''error'', JStr msg)]))) (\<lambda>_. sys_exit 1)"]
    quiet_ldm_load_model_body [of env mp q h]
  by (auto simp: ldm_load_model_def load_shape_def quiet_def exits_with_error_def
      py_bind_emit sys_exit_def)

lemma ldm_load_from_params_shape: "load_shape (ldm_load_from_params env params)"
  unfolding ldm_load_from_params_def
  by (intro load_shape_bind ldm_load_model_shape load_shape_quiet [OF quiet_lib])

lemma ldm_dispatch_shape: "load_shape (ldm_dispatch env op params)"
  unfolding ldm_dispatch_def
  by (auto intro!: load_shape_bind ldm_load_from_params_shape load_shape_quiet [OF quiet_lib]
      load_shape_quiet [OF quiet_return])

lemma try_print_shape:
  fixes m :: "'a comp" and g :: "'a \<Rightarrow> json" and h :: "string \<Rightarrow> json"
  assumes "load_shape m"
  defines "r \<equiv> py_try (py_bind m (\<lambda>result. emit (Print (g result))))
                   (\<lambda>msg. py_bind (emit (Print (h msg))) (\<lambda>_. sys_exit 1))"
  shows "(\<exists>result. snd m = Inr result \<and> stdout (fst r) = [Json (g result)] \<and> snd r = Inr ()) \<or>
         (\<exists>msg. snd m = Inl (Exception msg) \<and> stdout (fst r) = [Json (h msg)] \<and>
            snd r = Inl (SystemExit 1)) \<or>
         (exits_with_error m \<and> exits_with_error r)"
proof (cases "snd m")
  case (Inr result)
  with assms(1) have "stdout (fst m) = []"
    by (auto simp: load_shape_def quiet_def exits_with_error_def)
  with Inr show ?thesis
    by (simp add: r_def py_try_def snd_py_bind fst_py_bind emit_def)
next
  case (Inl e)
  show ?thesis
  proof (cases e)
    case (Exception msg)
    with Inl assms(1) have "stdout (fst m) = []"
      by (auto simp: load_shape_def quiet_def exits_with_error_def)
    with Inl Exception show ?thesis
      by (simp add: r_def py_try_def snd_py_bind fst_py_bind py_bind_emit sys_exit_def)
  next
    case (SystemExit n)
    with Inl assms(1) have "exits_with_error m"
      by (auto simp: load_shape_def quiet_def)
    moreover from Inl SystemExit have "fst r = fst m" and "snd r = Inl (SystemExit n)"
      by (simp_all add: r_def py_try_def snd_py_bind fst_py_bind)
    ultimately show ?thesis using Inl SystemExit by (simp add: exits_with_error_def)
  qed
qed

section \<open>Running a script\<close>

lemma ldm_scan_request_id:
  "ldm_scan cl op rid ps extras = py_return a \<Longrightarrow>
   Some (args_request_id a) = (if request_ids cl = [] then rid else Some (last (request_ids cl)))"
proof (induction cl op rid ps extras rule: ldm_scan.induct)
  case (1 op rid ps extras)
  then show ?case
    by (auto simp: py_return_def sys_exit_def split: option.splits if_splits)
next
  case (2 rest op rid ps extras)
  then show ?case by (simp add: py_bind_emit py_return_def sys_exit_def)
next
  case (3 v rest op rid ps extras)
  then show ?case by (simp add: py_return_def sys_exit_def split: if_splits)
qed auto

lemma w2v_scan_request_id:
  "w2v_scan cl op au rid extras = py_return a \<Longrightarrow>
   Some (args_request_id a) = (if request_ids cl = [] then rid else Some (last (request_ids cl)))"
proof (induction cl op au rid extras rule: w2v_scan.induct)
  case (1 op au rid extras)
  then show ?case
    by (auto simp: py_return_def sys_exit_def split: option.splits if_splits)
next
  case (2 rest op au rid extras)
  then show ?case by (simp add: py_bind_emit py_return_def sys_exit_def)
next
  case (3 v rest op au rid extras)
  then show ?case by (simp add: py_return_def sys_exit_def split: if_splits)
qed auto

lemma ldm_parse_args_request_id:
  "ldm_parse_args cl = py_return a \<Longrightarrow> opt_request_id cl = Some (args_request_id a)"
  using ldm_scan_request_id [of cl None None None False a]
  by (auto simp: ldm_parse_args_def opt_request_id_def split: if_splits)

lemma w2v_parse_args_request_id:
  "w2v_parse_args cl = py_return a \<Longrightarrow> opt_request_id cl = Some (args_request_id a)"
  using w2v_scan_request_id [of cl None None None False a]
  by (auto simp: w2v_parse_args_def opt_request_id_def split: if_splits)

lemma ldm_script_bad_json:
  "ldm_parse_args cl = py_return a \<Longrightarrow> json_loads env (args_params a) = Inl msg \<Longrightarrow>
   ldm_script env cl = \<lparr>trace = [], exit_code = 1\<rparr>"
  by (simp add: ldm_script_def ldm_main_def py_bind_return py_bind_lib_Inl run_def)

lemma ldm_script_accepted:
  "ldm_parse_args cl = py_return a \<Longrightarrow> json_loads env (args_params a) = Inr params \<Longrightarrow>
   ldm_script env cl = run (ldm_try env a params)"
  by (simp add: ldm_script_def ldm_main_def py_bind_return py_bind_lib_Inr)

lemma w2v_script_accepted:
  "w2v_parse_args cl = py_return a \<Longrightarrow> w2v_script env cl = run (w2v_try env a)"
  by (simp add: w2v_script_def w2v_main_def py_bind_return)

lemma ldm_try_shape:
  "(\<exists>result. snd (ldm_dispatch env (args_operation a) params) = Inr result \<and>
      stdout (fst (ldm_try env a params)) =
        [Json (JObj (AList.update ''request_id'' (JStr (args_request_id a)) result))] \<and>
      snd (ldm_try env a params) = Inr ()) \<or>
   (\<exists>msg. snd (ldm_dispatch env (args_operation a) params) = Inl (Exception msg) \<and>
      stdout (fst (ldm_try env a params)) =
        [Json (JObj [(''error'', JStr msg), (''request_id'', JStr (args_request_id a))])] \<and>
      snd (ldm_try env a params) = Inl (SystemExit 1)) \<or>
   (exits_with_error (ldm_dispatch env (args_operation a) params) \<and>
      exits_with_error (ldm_try env a params))"
  unfolding ldm_try_def
  by (rule try_print_shape [OF ldm_dispatch_shape])

lemma w2v_try_shape:
  "(\<exists>result. snd (w2v_dispatch env a) = Inr result \<and>
      stdout (fst (w2v_try env a)) =
        [Json (JObj (AList.update ''request_id'' (JStr (args_request_id a)) result))] \<and>
      snd (w2v_try env a) = Inr ()) \<or>
   (\<exists>msg. snd (w2v_dispatch env a) = Inl (Exception msg) \<and>
      stdout (fst (w2v_try env a)) =
        [Json (JObj [(''error'', JStr msg), (''request_id'', JStr (args_request_id a))])] \<and>
      snd (w2v_try env a) = Inl (SystemExit 1))"
  using try_print_shape [OF load_shape_quiet [OF quiet_w2v_dispatch], of env a
      "\<lambda>result. JObj (AList.update ''request_id'' (JStr (args_request_id a)) result)"
      "\<lambda>msg. JObj [(''error'', JStr msg), (''request_id'', JStr (args_request_id a))]"]
    quiet_w2v_dispatch [of env a]
  unfolding w2v_try_def by (auto simp: quiet_def exits_with_error_def)

text \<open>
  Rules that run a script on a concrete host: each step is a pair of the events so far and
  a result.
\<close>

lemma eval_bind_Inr: "py_bind (t, Inr x) f = (case f x of (t', r) \<Rightarrow> (t @ t', r))"
  by (simp add: py_bind_def split: prod.splits)

lemma eval_bind_Inl: "py_bind (t, Inl e) f = (t, Inl e)"
  by (simp add: py_bind_def)

lemma eval_try_Inr: "py_try (t, Inr x) h = (t, Inr x)"
  by (simp add: py_try_def)

lemma eval_try_SystemExit: "py_try (t, Inl (SystemExit n)) h = (t, Inl (SystemExit n))"
  by (simp add: py_try_def)

lemma eval_try_Exception:
  "py_try (t, Inl (Exception msg)) h = (case h msg of (t', r) \<Rightarrow> (t @ t', r))"
  by (simp add: py_try_def split: prod.splits)

lemmas eval_comp = py_return_def emit_def sys_exit_def lib_def eval_bind_Inr eval_bind_Inl
  eval_try_Inr eval_try_SystemExit eval_try_Exception run_def

lemma map_of_update_same: "map_of (AList.update k v al) k = Some v"
  by (simp add: update_conv')

lemma ldm_test_env_run:
  "ldm_script (sample_ldm False) (ldm_cmd ''test-env'' ''r1'' ''{}'') =
     \<lparr>trace = [Print (JObj [(''status'', JStr ''ok''), (''python_version'', JStr ''3.10.12''),
        (''pytorch_version'', JStr ''2.1.0''), (''cuda_available'', JBool False),
        (''gpu_info'', JObj []), (''request_id'', JStr ''r1'')])],
      exit_code = 0\<rparr>"
  by (simp add: ldm_script_def ldm_main_def ldm_parse_args_def ldm_cmd_def ldm_choices_def
      sample_ldm_def sample_json_loads_def ldm_try_def ldm_dispatch_def test_environment_def
      bind_err_def or_error_dict_def eval_comp)

lemma w2v_process_run:
  "w2v_script sample_w2v (w2v_cmd ''process'' ''r2'' ''stereo.wav'') =
     \<lparr>trace = [From_pretrained ''facebook/wav2vec2-base-960h'',
        From_pretrained ''facebook/wav2vec2-base-960h'',
        Processor_call (Arr2 2 [[1, 3], [2, 4]]) 16000,
        Print (JObj [(''transcription'', JStr ''HELLO''), (''confidence'', JFloat 1),
          (''request_id'', JStr ''r2'')])],
      exit_code = 0\<rparr>"
  by (simp add: w2v_script_def w2v_main_def w2v_parse_args_def w2v_cmd_def w2v_choices_def
      sample_w2v_def sample_sf_read_def w2v_try_def w2v_dispatch_def w2v_load_model_def
      process_audio_def w2v_inputs_def eval_comp)

lemma fst_lib [simp]: "fst (lib r) = []"
  by (simp add: lib_def split: sum.splits)

lemma fst_py_return [simp]: "fst (py_return x) = []"
  by (simp add: py_return_def)

lemma fst_emit [simp]: "fst (emit e) = [e]"
  by (simp add: emit_def)

lemma snd_emit [simp]: "snd (emit e) = Inr ()"
  by (simp add: emit_def)

lemma snd_py_return [simp]: "snd (py_return x) = Inr x"
  by (simp add: py_return_def)

lemma snd_lib [simp]: "snd (lib r) = (case r of Inl msg \<Rightarrow> Inl (Exception msg) | Inr x \<Rightarrow> Inr x)"
  by (simp add: lib_def split: sum.splits)

lemma fst_py_try:
  "fst (py_try m h) = fst m @ (case snd m of Inl (Exception msg) \<Rightarrow> fst (h msg) | _ \<Rightarrow> [])"
  by (simp add: py_try_def split: sum.splits exc.splits)

lemma mem_fst_py_bind:
  "e \<in> set (fst (py_bind m f)) \<longleftrightarrow>
     e \<in> set (fst m) \<or> (\<exists>x. snd m = Inr x \<and> e \<in> set (fst (f x)))"
  by (cases "snd m") (simp_all add: fst_py_bind)

lemma snd_py_bind_eq_Inr:
  "snd (py_bind m f) = Inr y \<longleftrightarrow> (\<exists>x. snd m = Inr x \<and> snd (f x) = Inr y)"
  by (cases "snd m") (simp_all add: snd_py_bind)

lemma snd_lib_eq_Inr: "snd (lib r) = Inr x \<longleftrightarrow> r = Inr x"
  by (cases r) (simp_all add: lib_def)

lemma mem_fst_if:
  "e \<in> set (fst (if c then a else b)) \<longleftrightarrow> (c \<and> e \<in> set (fst a)) \<or> (\<not> c \<and> e \<in> set (fst b))"
  by simp

lemma fst_lib_chain: "(\<And>x. fst (f x) = []) \<Longrightarrow> fst (py_bind (lib r) f) = []"
  by (simp add: fst_py_bind split: sum.splits)

section \<open>Rejected command lines\<close>








text \<open>
  C1, as stated, fails: a command line that argparse rejects prints nothing on standard
  output. Here the first adapter is given the operation \<^verbatim>\<open>transcribe\<close>, which it does not
  declare: the run prints no JSON object and ends with status 2.
\<close>

theorem rejected_invocation_prints_nothing_counterexample:
  "ldm_script (sample_ldm False) (ldm_cmd ''transcribe'' ''r1'' ''{}'') =
     \<lparr>trace = [], exit_code = 2\<rparr> \<and>
   length (stdout (trace (ldm_script (sample_ldm False) (ldm_cmd ''transcribe'' ''r1'' ''{}''))))
     \<noteq> 1"
  by (simp add: ldm_script_def ldm_main_def ldm_parse_args_def ldm_cmd_def ldm_choices_def
      eval_comp)

section \<open>Malformed parameters\<close>

text \<open>
  C3. \<^verbatim>\<open>json.loads(args.params)\<close> stands on line 151, before the \<^verbatim>\<open>try\<close> of line 153. When
  it raises, nothing catches the exception: the run prints nothing on standard output and
  the interpreter ends with status 1. The claim asks for an error envelope on standard
  output; the code prints none.
\<close>

theorem malformed_params_uncaught:
  assumes "ldm_parse_args cl = py_return a"
    and "json_loads env (args_params a) = Inl msg"
  shows "ldm_script env cl = \<lparr>trace = [], exit_code = 1\<rparr>"
  using assms by (rule ldm_script_bad_json)

theorem malformed_params_witness:
  "ldm_script (sample_ldm False) (ldm_cmd ''test-env'' ''r1'' ''{'') =
     \<lparr>trace = [], exit_code = 1\<rparr>"
  using malformed_params_uncaught
    [of "ldm_cmd ''test-env'' ''r1'' ''{''"
        "\<lparr>args_operation = ''test-env'', args_request_id = ''r1'', args_params = ''{''\<rparr>"
        "sample_ldm False"
        "''Expecting property name enclosed in double quotes: line 1 column 2 (char 1)''"]
  by (simp add: ldm_parse_args_def ldm_cmd_def ldm_choices_def sample_ldm_def
      sample_json_loads_def dq_def)

section \<open>A handler that fails\<close>

lemma ldm_result_exits_zero:
  assumes "ldm_parse_args cl = py_return a" and "json_loads env (args_params a) = Inr params"
    and "snd (ldm_dispatch env (args_operation a) params) = Inr result"
  shows "ldm_script env cl =
           \<lparr>trace = fst (ldm_dispatch env (args_operation a) params) @
              [Print (JObj (AList.update ''request_id'' (JStr (args_request_id a)) result))],
            exit_code = 0\<rparr>"
  using assms
  by (simp add: ldm_script_accepted ldm_try_def py_try_def snd_py_bind fst_py_bind run_def)

text \<open>
  C2. \<^verbatim>\<open>read_audio_file\<close> catches the exception of \<^verbatim>\<open>sf.read\<close> and returns
  \<^verbatim>\<open>{"error": msg}\<close>; \<^verbatim>\<open>main\<close> adds the request id, prints the object and returns, so the
  process ends with status 0. The claim asks for status 1 there.
\<close>

theorem read_audio_failure_exits_zero:
  assumes "ldm_parse_args cl = py_return a"
    and "args_operation a = ''read-audio''"
    and "json_loads env (args_params a) = Inr params"
    and "params_get params ''file_path'' (JStr []) = Inr file_path"
    and "sf_read env file_path = Inl msg"
  shows "ldm_script env cl =
           \<lparr>trace = [Print (JObj [(''error'', JStr msg),
                                  (''request_id'', JStr (args_request_id a))])],
            exit_code = 0\<rparr>"
proof -
  have "read_audio_file env file_path = [(''error'', JStr msg)]"
    using assms(5) by (simp add: read_audio_file_def bind_err_def or_error_dict_def)
  then have "ldm_dispatch env (args_operation a) params = ([], Inr [(''error'', JStr msg)])"
    using assms(2,4) by (simp add: ldm_dispatch_def py_bind_lib_Inr py_return_def)
  then have "ldm_try env a params =
      ([Print (JObj [(''error'', JStr msg), (''request_id'', JStr (args_request_id a))])],
       Inr ())"
    by (simp add: ldm_try_def py_try_def py_bind_def emit_def)
  then show ?thesis
    using assms(1,3) by (simp add: ldm_script_accepted run_def)
qed

theorem read_audio_failure_witness:
  "ldm_script (sample_ldm False) (ldm_cmd ''read-audio'' ''r1'' ''{}'') =
     \<lparr>trace = [Print (JObj [(''error'', JStr ''Error opening file: System error.''),
                            (''request_id'', JStr ''r1'')])],
      exit_code = 0\<rparr>"
  using read_audio_failure_exits_zero
    [of "ldm_cmd ''read-audio'' ''r1'' ''{}''"
        "\<lparr>args_operation = ''read-audio'', args_request_id = ''r1'', args_params = ''{}''\<rparr>"
        "sample_ldm False" "JObj []" "JStr []" "''Error opening file: System error.''"]
  by (simp add: ldm_parse_args_def ldm_cmd_def ldm_choices_def sample_ldm_def
      sample_json_loads_def sample_sf_read_def)

section \<open>A model load that fails\<close>

text \<open>
  C10. When the \<^verbatim>\<open>try\<close> of \<^verbatim>\<open>load_model\<close> raises, its own handler prints
  \<^verbatim>\<open>{"error": msg}\<close> and calls \<^verbatim>\<open>sys.exit(1)\<close>, which the handler of \<^verbatim>\<open>main\<close> does not
  catch. The one object on standard output has the key \<^verbatim>\<open>error\<close> only: it carries no
  \<^verbatim>\<open>request_id\<close>, where the claim asks for exactly the keys \<^verbatim>\<open>error\<close> and
  \<^verbatim>\<open>request_id\<close>.
\<close>

theorem load_failure_prints_no_request_id:
  assumes "ldm_parse_args cl = py_return a"
    and "args_operation a = ''load-model'' \<or> args_operation a = ''generate''"
    and "json_loads env (args_params a) = Inr params"
    and "params_get params ''model_path'' (JStr ''latent-diffusion/audioldm-s-full'') = Inr mp"
    and "params_get params ''quantization'' (JStr ''8bit'') = Inr q"
    and "params_get params ''use_half_precision'' (JBool True) = Inr uhp"
    and "snd (ldm_load_model_body env mp q uhp) = Inl (Exception msg)"
  shows "stdout (trace (ldm_script env cl)) = [Json (JObj [(''error'', JStr msg)])] \<and>
         exit_code (ldm_script env cl) = 1"
proof -
  let ?b = "ldm_load_model_body env mp q uhp"
  have q: "stdout (fst ?b) = []"
    using quiet_ldm_load_model_body [of env mp q uhp] by (simp add: quiet_def)
  have "ldm_load_model env mp q uhp =
      (fst ?b @ [Print (JObj [(''error'', JStr msg)])], Inl (SystemExit 1))"
    using assms(7) by (simp add: ldm_load_model_def py_try_def py_bind_emit sys_exit_def)
  then have "ldm_load_from_params env params =
      (fst ?b @ [Print (JObj [(''error'', JStr msg)])], Inl (SystemExit 1))"
    using assms(4,5,6) by (simp add: ldm_load_from_params_def py_bind_lib_Inr)
  then have "ldm_dispatch env (args_operation a) params =
      (fst ?b @ [Print (JObj [(''error'', JStr msg)])], Inl (SystemExit 1))"
    using assms(2) by (auto simp: ldm_dispatch_def py_bind_def)
  then have "ldm_try env a params =
      (fst ?b @ [Print (JObj [(''error'', JStr msg)])], Inl (SystemExit 1))"
    by (simp add: ldm_try_def py_try_def py_bind_def)
  then show ?thesis
    using assms(1,3) q by (simp add: ldm_script_accepted run_def)
qed

theorem load_failure_witness:
  "stdout (trace (ldm_script (sample_ldm False)
      (ldm_cmd ''load-model'' ''r1'' (''{'' @ dq ''model_path'' @ '': '' @ dq ''missing'' @ ''}''))))
     = [Json (JObj [(''error'', JStr ''model not found'')])] \<and>
   exit_code (ldm_script (sample_ldm False)
      (ldm_cmd ''load-model'' ''r1'' (''{'' @ dq ''model_path'' @ '': '' @ dq ''missing'' @ ''}'')))
     = 1"
  using load_failure_prints_no_request_id
    [of "ldm_cmd ''load-model'' ''r1'' (''{'' @ dq ''model_path'' @ '': '' @ dq ''missing'' @ ''}'')"
        "\<lparr>args_operation = ''load-model'', args_request_id = ''r1'',
          args_params = ''{'' @ dq ''model_path'' @ '': '' @ dq ''missing'' @ ''}''\<rparr>"
        "sample_ldm False" "JObj [(''model_path'', JStr ''missing'')]"
        "JStr ''missing''" "JStr ''8bit''" "JBool True" "''model not found''"]
  by (simp add: ldm_parse_args_def ldm_cmd_def ldm_choices_def sample_ldm_def
      sample_json_loads_def dq_def ldm_load_model_body_def py_bind_lib_Inr py_bind_lib_Inl
      py_bind_return py_bind_emit)

text \<open>
  The rest of what C10 says holds: an object printed by the first adapter that has the key
  \<^verbatim>\<open>error\<close> has no success field. It is the error payload with the request id, or the
  loader's object above.
\<close>

lemma no_error_key_bind: "(\<And>x. no_error_key (f x)) \<Longrightarrow> no_error_key (bind_err r f)"
  by (cases r) (simp_all add: bind_err_def no_error_key_def)

lemma no_error_key_case_prod: "(\<And>a b. no_error_key (f a b)) \<Longrightarrow> no_error_key (case_prod f x)"
  by (cases x) simp

lemma result_shape_or_error_dict: "no_error_key r \<Longrightarrow> result_shape (or_error_dict r)"
  by (cases r) (simp_all add: no_error_key_def result_shape_def or_error_dict_def)

lemma result_shape_generate_audio:
  "result_shape (generate_audio env m p od on st gs bs du sr)"
  unfolding generate_audio_def
  by (intro result_shape_or_error_dict no_error_key_bind) (simp add: no_error_key_def)

lemma result_shape_read_audio_file: "result_shape (read_audio_file env fp)"
  unfolding read_audio_file_def Let_def
  by (intro result_shape_or_error_dict no_error_key_bind no_error_key_case_prod)
     (simp add: no_error_key_def)

lemma result_shape_test_environment: "result_shape (test_environment env)"
  unfolding test_environment_def Let_def
  by (intro result_shape_or_error_dict no_error_key_bind) (simp add: no_error_key_def)

lemma ldm_dispatch_result_shape:
  assumes "snd (ldm_dispatch env op params) = Inr result"
  shows "result_shape result"
proof -
  consider "op = ''test-env''" | "op = ''load-model''" | "op = ''generate''"
    | "op = ''read-audio''"
    | "op \<noteq> ''test-env''" "op \<noteq> ''load-model''" "op \<noteq> ''generate''" "op \<noteq> ''read-audio''"
    by blast
  then show ?thesis
  proof cases
    case 1
    with assms show ?thesis
      by (auto simp: ldm_dispatch_def result_shape_test_environment)
  next
    case 2
    with assms show ?thesis
      by (auto simp: ldm_dispatch_def snd_py_bind_eq_Inr result_shape_def)
  next
    case 3
    with assms show ?thesis
      by (auto simp: ldm_dispatch_def snd_py_bind_eq_Inr result_shape_generate_audio)
  next
    case 4
    with assms show ?thesis
      by (auto simp: ldm_dispatch_def snd_py_bind_eq_Inr result_shape_read_audio_file)
  next
    case 5
    with assms show ?thesis
      by (auto simp: ldm_dispatch_def result_shape_def)
  qed
qed

lemma w2v_dispatch_result_shape:
  assumes "snd (w2v_dispatch env a) = Inr result"
  shows "map_of result ''error'' = None"
  using assms
  by (auto simp: w2v_dispatch_def process_audio_def analyze_audio_def snd_py_bind_eq_Inr
      split: prod.splits if_splits)

lemma update_result_shape:
  "result_shape d \<Longrightarrow>
   (\<exists>msg. AList.update ''request_id'' rid d = [(''error'', JStr msg), (''request_id'', rid)]) \<or>
   map_of (AList.update ''request_id'' rid d) ''error'' = None"
  by (auto simp: result_shape_def update_conv')

lemma ldm_error_object_keys:
  assumes "ldm_parse_args cl = py_return a"
    and "Json (JObj obj) \<in> set (stdout (trace (ldm_script env cl)))"
    and "map_of obj ''error'' \<noteq> None"
  shows "\<exists>msg. obj = [(''error'', JStr msg), (''request_id'', JStr (args_request_id a))] \<or>
               obj = [(''error'', JStr msg)]"
proof (cases "json_loads env (args_params a)")
  case (Inl msg)
  with assms show ?thesis by (simp add: ldm_script_bad_json)
next
  case (Inr params)
  with assms(1) have r: "ldm_script env cl = run (ldm_try env a params)"
    by (simp add: ldm_script_accepted)
  from ldm_try_shape [of env a params] show ?thesis
  proof (elim disjE exE conjE)
    fix result
    assume d: "snd (ldm_dispatch env (args_operation a) params) = Inr result"
      and "stdout (fst (ldm_try env a params)) =
          [Json (JObj (AList.update ''request_id'' (JStr (args_request_id a)) result))]"
      and "snd (ldm_try env a params) = Inr ()"
    with r assms(2) have "obj = AList.update ''request_id'' (JStr (args_request_id a)) result"
      by (simp add: run_def)
    with update_result_shape [OF ldm_dispatch_result_shape [OF d], of "JStr (args_request_id a)"]
      assms(3) show ?thesis by auto
  next
    fix msg
    assume "stdout (fst (ldm_try env a params)) =
          [Json (JObj [(''error'', JStr msg), (''request_id'', JStr (args_request_id a))])]"
      and "snd (ldm_try env a params) = Inl (SystemExit 1)"
    with r assms(2) show ?thesis by (simp add: run_def)
  next
    assume "exits_with_error (ldm_try env a params)"
    with r assms(2) show ?thesis by (auto simp: run_def exits_with_error_def)
  qed
qed

section \<open>A run that succeeds\<close>

lemma ldm_success_prints_request_id:
  assumes "ldm_parse_args cl = py_return a" and "exit_code (ldm_script env cl) = 0"
  shows "\<exists>result. stdout (trace (ldm_script env cl)) =
           [Json (JObj (AList.update ''request_id'' (JStr (args_request_id a)) result))]"
proof (cases "json_loads env (args_params a)")
  case (Inl msg)
  with assms show ?thesis by (simp add: ldm_script_bad_json)
next
  case (Inr params)
  with assms(1) have r: "ldm_script env cl = run (ldm_try env a params)"
    by (simp add: ldm_script_accepted)
  from ldm_try_shape [of env a params] show ?thesis
  proof (elim disjE exE conjE)
    fix result
    assume "stdout (fst (ldm_try env a params)) =
        [Json (JObj (AList.update ''request_id'' (JStr (args_request_id a)) result))]"
      and "snd (ldm_try env a params) = Inr ()"
    with r show ?thesis by (auto simp: run_def)
  next
    fix msg
    assume "snd (ldm_try env a params) = Inl (SystemExit 1)"
    with r assms(2) show ?thesis by (simp add: run_def)
  next
    assume "exits_with_error (ldm_try env a params)"
    with r assms(2) show ?thesis by (simp add: run_def exits_with_error_def)
  qed
qed

lemma w2v_success_prints_request_id:
  assumes "w2v_parse_args cl = py_return a" and "exit_code (w2v_script env cl) = 0"
  shows "\<exists>result. stdout (trace (w2v_script env cl)) =
           [Json (JObj (AList.update ''request_id'' (JStr (args_request_id a)) result))]"
proof -
  from assms(1) have r: "w2v_script env cl = run (w2v_try env a)"
    by (simp add: w2v_script_accepted)
  from w2v_try_shape [of env a] show ?thesis
  proof (elim disjE exE conjE)
    fix result
    assume "stdout (fst (w2v_try env a)) =
        [Json (JObj (AList.update ''request_id'' (JStr (args_request_id a)) result))]"
      and "snd (w2v_try env a) = Inr ()"
    with r show ?thesis by (auto simp: run_def)
  next
    fix msg
    assume "snd (w2v_try env a) = Inl (SystemExit 1)"
    with r assms(2) show ?thesis by (simp add: run_def)
  qed
qed

text \<open>
  C8. A run of either adapter, on a command line that its parser accepts, that ends with
  status 0 has printed exactly one JSON object and nothing else, and the value of its key
  \<^verbatim>\<open>request_id\<close> is the string given as \<^verbatim>\<open>--request-id\<close>.
\<close>

theorem successful_run_prints_request_id:
  "(ldm_parse_args cl1 = py_return a1 \<and> opt_request_id cl1 = Some rid1 \<and>
    exit_code (ldm_script env1 cl1) = 0 \<longrightarrow>
      (\<exists>obj. stdout (trace (ldm_script env1 cl1)) = [Json (JObj obj)] \<and>
             map_of obj ''request_id'' = Some (JStr rid1))) \<and>
   (w2v_parse_args cl2 = py_return a2 \<and> opt_request_id cl2 = Some rid2 \<and>
    exit_code (w2v_script env2 cl2) = 0 \<longrightarrow>
      (\<exists>obj. stdout (trace (w2v_script env2 cl2)) = [Json (JObj obj)] \<and>
             map_of obj ''request_id'' = Some (JStr rid2)))"
proof (intro conjI impI; elim conjE)
  assume p: "ldm_parse_args cl1 = py_return a1" and "opt_request_id cl1 = Some rid1"
    and e: "exit_code (ldm_script env1 cl1) = 0"
  then have "args_request_id a1 = rid1"
    using ldm_parse_args_request_id [of cl1 a1] by simp
  with ldm_success_prints_request_id [OF p e] obtain result where
    "stdout (trace (ldm_script env1 cl1)) =
      [Json (JObj (AList.update ''request_id'' (JStr rid1) result))]"
    by auto
  then show "\<exists>obj. stdout (trace (ldm_script env1 cl1)) = [Json (JObj obj)] \<and>
      map_of obj ''request_id'' = Some (JStr rid1)"
    by (simp add: map_of_update_same)
next
  assume p: "w2v_parse_args cl2 = py_return a2" and "opt_request_id cl2 = Some rid2"
    and e: "exit_code (w2v_script env2 cl2) = 0"
  then have "args_request_id a2 = rid2"
    using w2v_parse_args_request_id [of cl2 a2] by simp
  with w2v_success_prints_request_id [OF p e] obtain result where
    "stdout (trace (w2v_script env2 cl2)) =
      [Json (JObj (AList.update ''request_id'' (JStr rid2) result))]"
    by auto
  then show "\<exists>obj. stdout (trace (w2v_script env2 cl2)) = [Json (JObj obj)] \<and>
      map_of obj ''request_id'' = Some (JStr rid2)"
    by (simp add: map_of_update_same)
qed

theorem successful_run_witness:
  "exit_code (ldm_script (sample_ldm False) (ldm_cmd ''test-env'' ''r1'' ''{}'')) = 0 \<and>
   (\<exists>obj. stdout (trace (ldm_script (sample_ldm False) (ldm_cmd ''test-env'' ''r1'' ''{}'')))
            = [Json (JObj obj)] \<and> map_of obj ''request_id'' = Some (JStr ''r1'')) \<and>
   exit_code (w2v_script sample_w2v (w2v_cmd ''process'' ''r2'' ''stereo.wav'')) = 0 \<and>
   (\<exists>obj. stdout (trace (w2v_script sample_w2v (w2v_cmd ''process'' ''r2'' ''stereo.wav'')))
            = [Json (JObj obj)] \<and> map_of obj ''request_id'' = Some (JStr ''r2''))"
proof -
  let ?a1 = "\<lparr>args_operation = ''test-env'', args_request_id = ''r1'', args_params = ''{}''\<rparr>"
  let ?a2 = "\<lparr>args_operation = ''process'', args_request_id = ''r2'',
              args_audio = ''stereo.wav''\<rparr>"
  have 1: "exit_code (ldm_script (sample_ldm False) (ldm_cmd ''test-env'' ''r1'' ''{}'')) = 0"
    by (simp add: ldm_test_env_run)
  have 2: "exit_code (w2v_script sample_w2v (w2v_cmd ''process'' ''r2'' ''stereo.wav'')) = 0"
    by (simp add: w2v_process_run)
  have 3: "opt_request_id (ldm_cmd ''test-env'' ''r1'' ''{}'') = Some ''r1''"
    by (simp add: ldm_cmd_def opt_request_id_def)
  have 4: "opt_request_id (w2v_cmd ''process'' ''r2'' ''stereo.wav'') = Some ''r2''"
    by (simp add: w2v_cmd_def opt_request_id_def)
  have 5: "ldm_parse_args (ldm_cmd ''test-env'' ''r1'' ''{}'') = py_return ?a1"
    by (simp add: ldm_parse_args_def ldm_cmd_def ldm_choices_def)
  have 6: "w2v_parse_args (w2v_cmd ''process'' ''r2'' ''stereo.wav'') = py_return ?a2"
    by (simp add: w2v_parse_args_def w2v_cmd_def w2v_choices_def)
  from successful_run_prints_request_id
    [of "ldm_cmd ''test-env'' ''r1'' ''{}''" ?a1 "''r1''" "sample_ldm False"
        "w2v_cmd ''process'' ''r2'' ''stereo.wav''" ?a2 "''r2''" sample_w2v] 1 2 3 4 5 6
  show ?thesis by blast
qed

section \<open>One object for each accepted command line\<close>

lemma ldm_accepted_prints_one:
  assumes "ldm_parse_args cl = py_return a" and "json_loads env (args_params a) = Inr params"
  shows "\<exists>obj. stdout (trace (ldm_script env cl)) = [Json (JObj obj)]"
  using ldm_try_shape [of env a params] assms
  by (auto simp: ldm_script_accepted run_def exits_with_error_def)

lemma ldm_caught_in_main:
  assumes "ldm_parse_args cl = py_return a" and "json_loads env (args_params a) = Inr params"
    and "snd (ldm_dispatch env (args_operation a) params) = Inl (Exception msg)"
  shows "stdout (trace (ldm_script env cl)) =
           [Json (JObj [(''error'', JStr msg), (''request_id'', JStr (args_request_id a))])] \<and>
         exit_code (ldm_script env cl) = 1"
  using ldm_try_shape [of env a params] assms
  by (auto simp: ldm_script_accepted run_def exits_with_error_def)

lemma w2v_accepted_prints_one:
  assumes "w2v_parse_args cl = py_return a"
  shows "\<exists>obj. stdout (trace (w2v_script env cl)) = [Json (JObj obj)]"
  using w2v_try_shape [of env a] assms
  by (auto simp: w2v_script_accepted run_def)

lemma w2v_caught_in_main:
  assumes "w2v_parse_args cl = py_return a"
    and "snd (w2v_dispatch env a) = Inl (Exception msg)"
  shows "stdout (trace (w2v_script env cl)) =
           [Json (JObj [(''error'', JStr msg), (''request_id'', JStr (args_request_id a))])] \<and>
         exit_code (w2v_script env cl) = 1"
  using w2v_try_shape [of env a] assms
  by (auto simp: w2v_script_accepted run_def)

text \<open>
  C1, amended. When argparse accepts the command line (and, in the first adapter, the value
  of \<^verbatim>\<open>--params\<close> is valid JSON), exactly one JSON object is printed. When the \<^verbatim>\<open>try\<close> of
  \<^verbatim>\<open>main\<close> raises an \<^verbatim>\<open>Exception\<close>, which in the second adapter is every failure of
  loading or of the operation, that object is \<^verbatim>\<open>{"error": msg, "request_id": id}\<close> with
  the request id of the command line, and the status is 1.
\<close>

theorem accepted_invocation_prints_one_object:
  "(ldm_parse_args cl1 = py_return a1 \<and> json_loads env1 (args_params a1) = Inr params \<longrightarrow>
      (\<exists>obj. stdout (trace (ldm_script env1 cl1)) = [Json (JObj obj)]) \<and>
      (\<forall>msg. snd (ldm_dispatch env1 (args_operation a1) params) = Inl (Exception msg) \<longrightarrow>
         stdout (trace (ldm_script env1 cl1)) =
           [Json (JObj [(''error'', JStr msg), (''request_id'', JStr (args_request_id a1))])] \<and>
         exit_code (ldm_script env1 cl1) = 1)) \<and>
   (w2v_parse_args cl2 = py_return a2 \<longrightarrow>
      (\<exists>obj. stdout (trace (w2v_script env2 cl2)) = [Json (JObj obj)]) \<and>
      (\<forall>msg. snd (w2v_dispatch env2 a2) = Inl (Exception msg) \<longrightarrow>
         stdout (trace (w2v_script env2 cl2)) =
           [Json (JObj [(''error'', JStr msg), (''request_id'', JStr (args_request_id a2))])] \<and>
         exit_code (w2v_script env2 cl2) = 1))"
  using ldm_accepted_prints_one [of cl1 a1 env1 params] ldm_caught_in_main [of cl1 a1 env1 params]
    w2v_accepted_prints_one [of cl2 a2 env2] w2v_caught_in_main [of cl2 a2 env2]
  by blast

theorem accepted_invocation_witness:
  "stdout (trace (ldm_script (sample_ldm False) (ldm_cmd ''read-audio'' ''r1'' ''[]''))) =
     [Json (JObj [(''error'', JStr (quoted ''list'' @ '' object has no attribute '' @ quoted ''get'')),
            (''request_id'', JStr ''r1'')])] \<and>
   exit_code (ldm_script (sample_ldm False) (ldm_cmd ''read-audio'' ''r1'' ''[]'')) = 1 \<and>
   stdout (trace (w2v_script sample_w2v (w2v_cmd ''analyze'' ''r2'' ''absent.wav''))) =
     [Json (JObj [(''error'', JStr ''Error opening file: System error.''),
            (''request_id'', JStr ''r2'')])] \<and>
   exit_code (w2v_script sample_w2v (w2v_cmd ''analyze'' ''r2'' ''absent.wav'')) = 1"
proof -
  let ?a1 = "\<lparr>args_operation = ''read-audio'', args_request_id = ''r1'', args_params = ''[]''\<rparr>"
  let ?a2 = "\<lparr>args_operation = ''analyze'', args_request_id = ''r2'', args_audio = ''absent.wav''\<rparr>"
  have 1: "ldm_parse_args (ldm_cmd ''read-audio'' ''r1'' ''[]'') = py_return ?a1"
    by (simp add: ldm_parse_args_def ldm_cmd_def ldm_choices_def)
  have 2: "json_loads (sample_ldm False) (args_params ?a1) = Inr (JArr [])"
    by (simp add: sample_ldm_def sample_json_loads_def)
  have 3: "snd (ldm_dispatch (sample_ldm False) (args_operation ?a1) (JArr [])) =
      Inl (Exception (quoted ''list'' @ '' object has no attribute '' @ quoted ''get''))"
    by (simp add: ldm_dispatch_def eval_comp)
  have 4: "w2v_parse_args (w2v_cmd ''analyze'' ''r2'' ''absent.wav'') = py_return ?a2"
    by (simp add: w2v_parse_args_def w2v_cmd_def w2v_choices_def)
  have 5: "snd (w2v_dispatch sample_w2v ?a2) =
      Inl (Exception ''Error opening file: System error.'')"
    by (simp add: w2v_dispatch_def w2v_load_model_def analyze_audio_def feature_list_def
        w2v_inputs_def sample_w2v_def sample_sf_read_def eval_comp)
  from accepted_invocation_prints_one_object
    [of "ldm_cmd ''read-audio'' ''r1'' ''[]''" ?a1 "sample_ldm False" "JArr []"
        "w2v_cmd ''analyze'' ''r2'' ''absent.wav''" ?a2 sample_w2v] 1 2 3 4 5
  show ?thesis by simp
qed

section \<open>The model loader of the first adapter\<close>

lemma half_in_body:
  "Model_half \<in> set (fst (ldm_load_model_body env mp q uhp)) \<longleftrightarrow>
     truthy uhp \<and> q = JStr ''none'' \<and> cuda_is_available env \<and>
     (\<exists>m. audioldm_init env mp ''cuda'' None = Inr m)"
  unfolding ldm_load_model_body_def Let_def
  by (auto simp add: mem_fst_py_bind snd_py_bind_eq_Inr snd_lib_eq_Inr mem_fst_if
      simp del: snd_lib)

lemma quantized_init_in_body:
  "AudioLDM_init p d (Some c) \<in> set (fst (ldm_load_model_body env mp q uhp)) \<Longrightarrow>
     q = JStr ''8bit'' \<or> q = JStr ''4bit''"
  unfolding ldm_load_model_body_def Let_def
  by (auto simp add: mem_fst_py_bind snd_py_bind_eq_Inr snd_lib_eq_Inr mem_fst_if
      simp del: snd_lib split: if_splits)

lemma mem_fst_ldm_load_model:
  "printed e = [] \<Longrightarrow>
   e \<in> set (fst (ldm_load_model env mp q uhp)) \<longleftrightarrow>
   e \<in> set (fst (ldm_load_model_body env mp q uhp))"
  by (cases e)
     (auto simp: ldm_load_model_def fst_py_try mem_fst_py_bind sys_exit_def
      split: sum.splits exc.splits)

text \<open>
  C5. \<^verbatim>\<open>model.half()\<close> is called exactly when \<^verbatim>\<open>use_half_precision\<close> is true,
  \<^verbatim>\<open>quantization\<close> is \<^verbatim>\<open>'none'\<close>, CUDA is available and the constructor returned a model.
  In a run that calls it, the constructor was not given a quantization config.
\<close>

theorem half_precision_only_unquantized_on_cuda:
  "(Model_half \<in> set (fst (ldm_load_model env mp q uhp)) \<longleftrightarrow>
      truthy uhp \<and> q = JStr ''none'' \<and> cuda_is_available env \<and>
      (\<exists>m. audioldm_init env mp ''cuda'' None = Inr m)) \<and>
   (Model_half \<in> set (fst (ldm_load_model env mp q uhp)) \<longrightarrow>
      (\<forall>p d c. AudioLDM_init p d (Some c) \<notin> set (fst (ldm_load_model env mp q uhp))))"
  using half_in_body [of env mp q uhp] quantized_init_in_body [of _ _ _ env mp q uhp]
  by (auto simp: mem_fst_ldm_load_model)

theorem half_precision_witness:
  "Model_half \<in> set (fst (ldm_load_model (sample_ldm True) (JStr ''audioldm-s-full'')
      (JStr ''none'') (JBool True))) \<and>
   Model_half \<notin> set (fst (ldm_load_model (sample_ldm True) (JStr ''audioldm-s-full'')
      (JStr ''8bit'') (JBool True))) \<and>
   Model_half \<notin> set (fst (ldm_load_model (sample_ldm False) (JStr ''audioldm-s-full'')
      (JStr ''none'') (JBool True))) \<and>
   AudioLDM_init (JStr ''audioldm-s-full'') ''cuda'' (Some Load_in_8bit) \<notin>
     set (fst (ldm_load_model (sample_ldm True) (JStr ''audioldm-s-full'')
      (JStr ''none'') (JBool True)))"
  using half_precision_only_unquantized_on_cuda
      [of "sample_ldm True" "JStr ''audioldm-s-full''" "JStr ''none''" "JBool True"]
    half_precision_only_unquantized_on_cuda
      [of "sample_ldm True" "JStr ''audioldm-s-full''" "JStr ''8bit''" "JBool True"]
    half_precision_only_unquantized_on_cuda
      [of "sample_ldm False" "JStr ''audioldm-s-full''" "JStr ''none''" "JBool True"]
  by (simp add: sample_ldm_def)

section \<open>Reading a stereo file\<close>

text \<open>
  C6. For a file of two channels with frames \<open>(l, r)\<close> and a sample rate other than 0,
  the signal that \<^verbatim>\<open>read_audio_file\<close> encodes is the list of the means \<open>(l + r) / 2\<close>, one
  for each frame, and the duration it reports is the number of frames over the sample rate.
\<close>

theorem read_audio_stereo_to_mono:
  assumes "sf_read env file_path = Inr (Arr2 2 (map (\<lambda>(l, r). [l, r]) frames), R)"
    and "R \<noteq> 0"
  shows "to_mono_float32 (Arr2 2 (map (\<lambda>(l, r). [l, r]) frames)) =
           Inr (Arr1 (map (\<lambda>(l, r). (l + r) / 2) frames)) \<and>
         np_len (Arr1 (map (\<lambda>(l, r). (l + r) / 2) frames)) = length frames \<and>
         read_audio_file env file_path =
           [(''audio_data'', JStr (npy_base64 env (Arr1 (map (\<lambda>(l, r). (l + r) / 2) frames)))),
            (''sample_rate'', JInt R),
            (''duration'', JFloat (of_nat (length frames) / of_int R))]"
proof -
  have m: "to_mono_float32 (Arr2 2 (map (\<lambda>(l, r). [l, r]) frames)) =
      Inr (Arr1 (map (\<lambda>(l, r). (l + r) / 2) frames))"
    by (simp add: to_mono_float32_def bind_err_def astype_float32_def case_prod_beta)
  then show ?thesis
    using assms
    by (simp add: read_audio_file_def bind_err_def or_error_dict_def true_div_def)
qed

theorem read_audio_stereo_witness:
  "to_mono_float32 (Arr2 2 [[1, 3], [2, 4]]) = Inr (Arr1 [2, 3]) \<and>
   np_len (Arr1 [2, 3]) = 2 \<and>
   read_audio_file (sample_ldm False) (JStr ''stereo.wav'') =
     [(''audio_data'', JStr (npy_base64 (sample_ldm False) (Arr1 [2, 3]))),
      (''sample_rate'', JInt 16000),
      (''duration'', JFloat (2 / 16000))]"
  using read_audio_stereo_to_mono
    [of "sample_ldm False" "JStr ''stereo.wav''" "[(1, 3), (2, 4)]" 16000]
  by (simp add: sample_ldm_def sample_sf_read_def)

section \<open>The feature sample\<close>

text \<open>
  C7. When the feature vector has more than 20 values, \<^verbatim>\<open>analyze_audio\<close> returns its
  first 20 values under \<^verbatim>\<open>features\<close> and its length under \<^verbatim>\<open>feature_count\<close>.
\<close>

theorem analyze_truncates_to_twenty:
  assumes "snd (feature_list env audio_path model processor) = Inr (Nested xs)"
    and "length xs > 20"
  shows "snd (analyze_audio env audio_path model processor) =
           Inr [(''features'', JArr (map to_json (take 20 xs))),
                (''feature_count'', JInt (int (length xs)))] \<and>
         length (map to_json (take 20 xs)) = 20"
  using assms
  by (simp add: analyze_audio_def snd_py_bind py_bind_lib_Inr)

theorem analyze_truncates_witness:
  "snd (analyze_audio sample_w2v ''stereo.wav'' () ()) =
     Inr [(''features'', JArr (map JFloat
            [1, 2, 3, 4, 5, 6, 7, 8, 9, 10, 11, 12, 13, 14, 15, 16, 17, 18, 19, 20])),
          (''feature_count'', JInt 21)]"
proof -
  have "snd (feature_list sample_w2v ''stereo.wav'' () ()) = Inr (Nested (map Scalar
      [1, 2, 3, 4, 5, 6, 7, 8, 9, 10, 11, 12, 13, 14, 15, 16, 17, 18, 19, 20, 21]))"
    by (simp add: feature_list_def w2v_inputs_def sample_w2v_def sample_sf_read_def eval_comp)
  from analyze_truncates_to_twenty [OF this] show ?thesis
    by simp
qed

section \<open>Where channels are averaged\<close>

lemma fst_w2v_inputs:
  "sf_read env (JStr audio_path) = Inr (audio, sr) \<Longrightarrow>
   fst (w2v_inputs env audio_path processor) = [Processor_call audio sr]"
  by (simp add: w2v_inputs_def py_bind_lib_Inr py_bind_emit fst_lib_chain)

lemma fst_process_audio:
  "sf_read env (JStr audio_path) = Inr (audio, sr) \<Longrightarrow>
   fst (process_audio env audio_path model processor) = [Processor_call audio sr]"
  by (simp add: process_audio_def fst_py_bind [of "w2v_inputs env audio_path processor"]
      fst_w2v_inputs fst_lib_chain split: sum.splits)

lemma fst_feature_list:
  "sf_read env (JStr audio_path) = Inr (audio, sr) \<Longrightarrow>
   fst (feature_list env audio_path model processor) = [Processor_call audio sr]"
  by (simp add: feature_list_def fst_py_bind [of "w2v_inputs env audio_path processor"]
      fst_w2v_inputs fst_lib_chain split: sum.splits)

lemma fst_analyze_audio:
  "sf_read env (JStr audio_path) = Inr (audio, sr) \<Longrightarrow>
   fst (analyze_audio env audio_path model processor) = [Processor_call audio sr]"
  by (simp add: analyze_audio_def
      fst_py_bind [of "feature_list env audio_path model processor"]
      fst_feature_list fst_lib_chain split: sum.splits)

text \<open>
  The first adapter does average: when the file has more than one channel,
  \<^verbatim>\<open>read_audio_file\<close> encodes the mean over the channels of each frame (lines 93 to 95,
  under the comment \<^verbatim>\<open>Convert to mono if stereo\<close>).
\<close>

lemma read_audio_multichannel:
  assumes "sf_read env file_path = Inr (Arr2 c rows, sr)" and "c > 1" and "sr \<noteq> 0"
  shows "read_audio_file env file_path =
           [(''audio_data'',
               JStr (npy_base64 env (Arr1 (map (\<lambda>row. sum_list row / of_nat c) rows)))),
            (''sample_rate'', JInt sr),
            (''duration'', JFloat (of_nat (length rows) / of_int sr))]"
  using assms
  by (simp add: read_audio_file_def to_mono_float32_def astype_float32_def bind_err_def
      or_error_dict_def true_div_def)

text \<open>
  C4. The second adapter has no such step. When \<^verbatim>\<open>sf.read\<close> returns an array of more than
  one channel, \<^verbatim>\<open>process_audio\<close> and \<^verbatim>\<open>analyze_audio\<close> call the preprocessor once, with that
  array as it was read, not with the mean over its channels that the claim asks for and
  that \<^verbatim>\<open>read_audio_file\<close> computes from the same array.
\<close>

theorem speech_adapter_skips_downmix:
  assumes "sf_read env (JStr audio_path) = Inr (Arr2 c rows, sr)" and "c > 1"
  shows "concat (map preprocessor_input (fst (process_audio env audio_path model processor))) =
           [Arr2 c rows] \<and>
         concat (map preprocessor_input (fst (analyze_audio env audio_path model processor))) =
           [Arr2 c rows] \<and>
         is_multichannel (Arr2 c rows) \<and>
         to_mono_float32 (Arr2 c rows) =
           Inr (Arr1 (map (\<lambda>row. sum_list row / of_nat c) rows))"
  using assms
  by (simp add: fst_process_audio fst_analyze_audio to_mono_float32_def bind_err_def
      astype_float32_def)

theorem speech_adapter_skips_downmix_witness:
  "concat (map preprocessor_input (fst (process_audio sample_w2v ''stereo.wav'' () ()))) =
     [Arr2 2 [[1, 3], [2, 4]]] \<and>
   concat (map preprocessor_input (fst (analyze_audio sample_w2v ''stereo.wav'' () ()))) =
     [Arr2 2 [[1, 3], [2, 4]]] \<and>
   is_multichannel (Arr2 2 [[1, 3], [2, 4]]) \<and>
   to_mono_float32 (Arr2 2 [[1, 3], [2, 4]]) = Inr (Arr1 [2, 3])"
  using speech_adapter_skips_downmix
    [of sample_w2v "''stereo.wav''" 2 "[[1, 3], [2, 4]]" 16000 "()" "()"]
  by (simp add: sample_w2v_def sample_sf_read_def)

end
